theory Spec2Isabelle
  imports
    Complex_Main
    "HOL-Library.AList"
    "HOL-Library.Char_ord"
    "HOL-Library.List_Lexorder"
    "HOL-Library.Product_Lexorder"
    "HOL-Library.Multiset"
begin

section \<open>Floating-point cells\<close>

text \<open>
  The pipeline keeps every measured quantity in a pandas \<^verbatim>\<open>float64\<close> column, where
  \<^verbatim>\<open>NaN\<close> is the marker of a missing value (\<^verbatim>\<open>pd.isna\<close>). A cell is modelled as
  an exact real, an infinity with its sign (\<open>True\<close> for \<^verbatim>\<open>+inf\<close>) or \<open>NaN\<close>. The
  operations follow IEEE 754 on the special values; on finite values they are exact:
  rounding error and overflow are not modelled, and zero carries no sign (a quotient by
  zero takes the sign of its numerator, as for \<^verbatim>\<open>+0.0\<close>).
\<close>

datatype fval = Fin real | Infty bool | NaN

fun isna :: "fval \<Rightarrow> bool" where
  "isna NaN = True"
| "isna (Fin _) = False"
| "isna (Infty _) = False"

fun fneg :: "fval \<Rightarrow> fval" where
  "fneg (Fin a) = Fin (- a)"
| "fneg (Infty s) = Infty (\<not> s)"
| "fneg NaN = NaN"

fun fadd :: "fval \<Rightarrow> fval \<Rightarrow> fval" where
  "fadd (Fin a) (Fin b) = Fin (a + b)"
| "fadd (Fin a) (Infty t) = Infty t"
| "fadd (Infty s) (Fin b) = Infty s"
| "fadd (Infty s) (Infty t) = (if s = t then Infty s else NaN)"
| "fadd NaN y = NaN"
| "fadd x NaN = NaN"

definition fsub :: "fval \<Rightarrow> fval \<Rightarrow> fval" where
  "fsub x y = fadd x (fneg y)"

fun fmul :: "fval \<Rightarrow> fval \<Rightarrow> fval" where
  "fmul (Fin a) (Fin b) = Fin (a * b)"
| "fmul (Fin a) (Infty t) = (if a = 0 then NaN else Infty ((0 < a) = t))"
| "fmul (Infty s) (Fin b) = (if b = 0 then NaN else Infty (s = (0 < b)))"
| "fmul (Infty s) (Infty t) = Infty (s = t)"
| "fmul NaN y = NaN"
| "fmul x NaN = NaN"

fun fdiv :: "fval \<Rightarrow> fval \<Rightarrow> fval" where
  "fdiv (Fin a) (Fin b) =
     (if b \<noteq> 0 then Fin (a / b)
      else if a = 0 then NaN
      else Infty (0 < a))"
| "fdiv (Fin a) (Infty t) = Fin 0"
| "fdiv (Infty s) (Fin b) = Infty (s = (0 \<le> b))"
| "fdiv (Infty s) (Infty t) = NaN"
| "fdiv NaN y = NaN"
| "fdiv x NaN = NaN"

text \<open>
  \<^verbatim>\<open>Series.round(3)\<close> is numpy's rounding: scale by \<open>10 ^ 3\<close>, round to the nearest
  integer with ties going to the even one, scale back.
\<close>

definition rint :: "real \<Rightarrow> int" where
  "rint x =
     (let f = \<lfloor>x\<rfloor>; d = x - of_int f
      in if d < 1 / 2 then f
         else if 1 / 2 < d then f + 1
         else if even f then f else f + 1)"

fun fround :: "nat \<Rightarrow> fval \<Rightarrow> fval" where
  "fround n (Fin a) = Fin (of_int (rint (a * 10 ^ n)) / 10 ^ n)"
| "fround n (Infty s) = Infty s"
| "fround n NaN = NaN"

text \<open>Summation in list order, starting from \<open>0.0\<close>.\<close>

fun fsum :: "fval list \<Rightarrow> fval" where
  "fsum [] = Fin 0"
| "fsum (v # vs) = fadd v (fsum vs)"

text \<open>
  \<^verbatim>\<open>DataFrame.sum(axis=1)\<close> with its defaults \<^verbatim>\<open>skipna=True, min_count=0\<close>: every
  \<^verbatim>\<open>NaN\<close> is replaced by \<open>0\<close> and the row is summed; no count of present values is
  required of the row.
\<close>

definition nansum :: "fval list \<Rightarrow> fval" where
  "nansum vs = fsum (map (\<lambda>v. if isna v then Fin 0 else v) vs)"

text \<open>
  The group mean of \<^verbatim>\<open>groupby(...).mean()\<close>: \<^verbatim>\<open>NaN\<close> observations are skipped, the
  others are summed and divided by their number; a group with none gives \<^verbatim>\<open>NaN\<close>.
\<close>

definition nanmean :: "fval list \<Rightarrow> fval" where
  "nanmean vs =
     (let xs = filter (\<lambda>v. \<not> isna v) vs
      in if xs = [] then NaN else fdiv (fsum xs) (Fin (real (length xs))))"


section \<open>Configuration (\<^verbatim>\<open>src/config.py\<close>)\<close>

definition SERIES_MAPPING :: "(string \<times> string) list" where
  "SERIES_MAPPING =
     [(''MDIRPP32'', ''Production''),
      (''MDIIMP32'', ''Imports''),
      (''MDINRP32'', ''Net_Receipts''),
      (''MDISCP32'', ''Stock_Change''),
      (''MDIEXP32'', ''Exports''),
      (''MDIUPP32'', ''Product_Supplied'')]"

definition SUPPLY_COMPONENTS :: "string list" where
  "SUPPLY_COMPONENTS = [''Production'', ''Imports'', ''Net_Receipts'']"

definition DISPOSITION_COMPONENTS :: "string list" where
  "DISPOSITION_COMPONENTS = [''Exports'', ''Product_Supplied'', ''Stock_Change'']"

definition BRONZE_RAW_PATH :: string where
  "BRONZE_RAW_PATH = ''data/bronze/eia_raw_responses.json''"

definition SILVER_CLEAN_PATH :: string where
  "SILVER_CLEAN_PATH = ''data/silver/distillate_monthly_clean.csv''"

definition GOLD_ANNUAL_PATH :: string where
  "GOLD_ANNUAL_PATH = ''data/gold/distillate_annual_averages.csv''"


section \<open>Tables\<close>

text \<open>
  Python exceptions that the two stages can raise, each named after the pandas or Python
  message it stands for: \<^verbatim>\<open>FileNotFoundError\<close> of the constructors and loaders,
  \<^verbatim>\<open>KeyError\<close> of \<^verbatim>\<open>SERIES_MAPPING[series_id]\<close>, and the \<^verbatim>\<open>ValueError\<close>s of
  \<^verbatim>\<open>pd.concat\<close> (no objects to concatenate), \<^verbatim>\<open>pd.to_datetime\<close> (time data does
  not match the format), \<^verbatim>\<open>DataFrame.pivot\<close> (index contains duplicate entries) and
  \<^verbatim>\<open>reset_index\<close> (cannot insert year, already exists).
\<close>

datatype error =
    FileNotFoundError string
  | KeyError string
  | NoObjectsToConcatenate
  | TimeDataMismatch string
  | DuplicateEntries
  | CannotInsertYear

text \<open>A calendar timestamp, as \<^verbatim>\<open>pd.to_datetime\<close> returns it (the time of day is midnight).\<close>

record timestamp =
  ts_year :: int
  ts_month :: int
  ts_day :: int

text \<open>
  The columns \<^verbatim>\<open>year\<close> and \<^verbatim>\<open>component\<close> are shared by the monthly table of the
  silver layer and the long annual table of the gold layer.
\<close>

record key_cols =
  year :: int
  component :: string

text \<open>One row of the silver table (\<^verbatim>\<open>distillate_monthly_clean.csv\<close>).\<close>

record clean_row = key_cols +
  date :: timestamp
  series_id :: string
  value_mbblpd :: fval
  month :: int
  category :: string

text \<open>One row of the long annual table: \<^verbatim>\<open>year, component, annual_avg_mbblpd\<close>.\<close>

record annual_row = key_cols +
  annual_avg_mbblpd :: fval

text \<open>
  The wide annual table. \<open>columns\<close> lists the column labels in order, \<^verbatim>\<open>year\<close>
  included; a row keeps its integer \<^verbatim>\<open>year\<close> and, for every other column, the label
  with its cell, in column order.
\<close>

record wrow =
  wyear :: int
  cells :: "(string \<times> fval) list"

record frame =
  columns :: "string list"
  rows :: "wrow list"

text \<open>
  The bronze file is a JSON object: series id to API response. A response may lack the
  key \<^verbatim>\<open>response\<close>, and the response the key \<^verbatim>\<open>data\<close>; each record of
  \<^verbatim>\<open>data\<close> has a \<^verbatim>\<open>period\<close> string and a \<^verbatim>\<open>value\<close>, a JSON scalar.
\<close>

datatype json = JString string | JNumber real | JNull

record series_record =
  period :: string
  raw_value :: json

record envelope =
  data :: "series_record list option"

record api_response =
  response :: "envelope option"

text \<open>
  One row of the table that \<open>parse_series_data\<close> builds: the record's fields and the
  two added columns \<^verbatim>\<open>series_id\<close> and \<^verbatim>\<open>component\<close>.
\<close>

record raw_row = series_record +
  raw_series_id :: string
  raw_component :: string

text \<open>
  The file system holds, for each path, what was written there: the raw responses of the
  bronze layer (the items of the JSON object, in order), the monthly table of the silver
  layer, the annual table of the gold layer.
\<close>

record filesystem =
  bronze_store :: "string \<rightharpoonup> (string \<times> api_response) list"
  silver_store :: "string \<rightharpoonup> clean_row list"
  gold_store :: "string \<rightharpoonup> frame"

definition cell :: "wrow \<Rightarrow> string \<Rightarrow> fval" where
  "cell r c = the (map_of (cells r) c)"

text \<open>
  \<^verbatim>\<open>df[c] = s\<close>, the series \<open>s\<close> being computed row by row from \<open>df\<close>: an existing
  column is overwritten in place, a new one is appended on the right.
\<close>

definition assign :: "string \<Rightarrow> (wrow \<Rightarrow> fval) \<Rightarrow> frame \<Rightarrow> frame" where
  "assign c s df =
     \<lparr>columns = (if c \<in> set (columns df) then columns df else columns df @ [c]),
      rows = map (\<lambda>r. r\<lparr>cells := AList.update c (s r) (cells r)\<rparr>) (rows df)\<rparr>"


section \<open>Silver layer (\<^verbatim>\<open>src/silver/transform.py\<close>)\<close>

subsection \<open>\<^verbatim>\<open>parse_series_data\<close>\<close>

text \<open>An empty list is the empty \<^verbatim>\<open>pd.DataFrame()\<close> of the two warning branches.\<close>

definition parse_series_data :: "string \<Rightarrow> api_response \<Rightarrow> error + raw_row list" where
  "parse_series_data sid resp =
     (case response resp of
        None \<Rightarrow> Inr []
      | Some env \<Rightarrow>
          (case data env of
             None \<Rightarrow> Inr []
           | Some records \<Rightarrow>
               if records = [] then Inr []
               else (case map_of SERIES_MAPPING sid of
                       None \<Rightarrow> Inl (KeyError sid)
                     | Some name \<Rightarrow>
                         Inr (map (\<lambda>rec. \<lparr>period = period rec, raw_value = raw_value rec,
                                           raw_series_id = sid, raw_component = name\<rparr>)
                                  records))))"

subsection \<open>\<^verbatim>\<open>clean_and_normalize\<close>\<close>

text \<open>
  The two pandas conversions are parameters of the model:
  \<^item> \<open>to_datetime\<close> is \<^verbatim>\<open>pd.to_datetime(_, format="%Y-%m")\<close> on one string, \<open>None\<close>
    where pandas raises;
  \<^item> \<open>to_numeric\<close> is \<^verbatim>\<open>pd.to_numeric(_, errors="coerce")\<close> on one value, \<open>NaN\<close>
    where the value is not a number.
  The date column is converted first, and one string that does not parse aborts the call.
\<close>

fun parse_dates :: "(string \<Rightarrow> timestamp option) \<Rightarrow> string list \<Rightarrow> error + timestamp list" where
  "parse_dates to_datetime [] = Inr []"
| "parse_dates to_datetime (s # ss) =
     (case to_datetime s of
        None \<Rightarrow> Inl (TimeDataMismatch s)
      | Some d \<Rightarrow>
          (case parse_dates to_datetime ss of
             Inl e \<Rightarrow> Inl e
           | Inr ds \<Rightarrow> Inr (d # ds)))"

definition classify :: "string \<Rightarrow> string" where
  "classify x =
     (if x \<in> set SUPPLY_COMPONENTS then ''Supply''
      else if x \<in> set DISPOSITION_COMPONENTS then ''Disposition''
      else ''Other'')"

definition date_key :: "timestamp \<Rightarrow> int \<times> int \<times> int" where
  "date_key d = (ts_year d, ts_month d, ts_day d)"

definition clean_and_normalize ::
  "(string \<Rightarrow> timestamp option) \<Rightarrow> (json \<Rightarrow> fval) \<Rightarrow> raw_row list \<Rightarrow> error + clean_row list" where
  "clean_and_normalize to_datetime to_numeric df =
     (case parse_dates to_datetime (map period df) of
        Inl e \<Rightarrow> Inl e
      | Inr dates \<Rightarrow>
          (let values = map (\<lambda>r. to_numeric (raw_value r)) df;
               built = map (\<lambda>(r, d, v).
                              \<lparr>year = ts_year d, component = raw_component r,
                               date = d, series_id = raw_series_id r, value_mbblpd = v,
                               month = ts_month d, category = classify (raw_component r)\<rparr>)
                           (zip df (zip dates values));
               sorted = sort_key (\<lambda>r. (date_key (date r), component r)) built
           in Inr (filter (\<lambda>r. \<not> isna (value_mbblpd r)) sorted)))"

subsection \<open>\<^verbatim>\<open>SilverTransformation.run\<close>\<close>

text \<open>The loop over \<^verbatim>\<open>raw_data.items()\<close>: each non-empty table is appended to \<open>dfs\<close>.\<close>

fun parse_all :: "(string \<times> api_response) list \<Rightarrow> raw_row list list \<Rightarrow> error + raw_row list list" where
  "parse_all [] dfs = Inr dfs"
| "parse_all ((sid, resp) # items) dfs =
     (case parse_series_data sid resp of
        Inl e \<Rightarrow> Inl e
      | Inr df \<Rightarrow> parse_all items (if df \<noteq> [] then dfs @ [df] else dfs))"

text \<open>\<^verbatim>\<open>pd.concat(dfs, ignore_index=True)\<close> raises on an empty list of tables.\<close>

definition pd_concat :: "raw_row list list \<Rightarrow> error + raw_row list" where
  "pd_concat dfs = (if dfs = [] then Inl NoObjectsToConcatenate else Inr (concat dfs))"

definition SilverTransformation_init :: "string option \<Rightarrow> filesystem \<Rightarrow> error + string" where
  "SilverTransformation_init bronze_path fs =
     (let p = (case bronze_path of None \<Rightarrow> BRONZE_RAW_PATH | Some p \<Rightarrow> p)
      in if bronze_store fs p = None then Inl (FileNotFoundError p) else Inr p)"

text \<open>
  The result is the cleaned table or the exception, with the file system after the call:
  \<open>save_clean_data\<close> writes the silver file only when every earlier step returned.
\<close>

definition SilverTransformation_run ::
  "(string \<Rightarrow> timestamp option) \<Rightarrow> (json \<Rightarrow> fval) \<Rightarrow> string \<Rightarrow> filesystem
     \<Rightarrow> (error + clean_row list) \<times> filesystem" where
  "SilverTransformation_run to_datetime to_numeric self fs =
     (case bronze_store fs self of
        None \<Rightarrow> (Inl (FileNotFoundError self), fs)
      | Some raw_data \<Rightarrow>
          (case parse_all raw_data [] of
             Inl e \<Rightarrow> (Inl e, fs)
           | Inr dfs \<Rightarrow>
               (case pd_concat dfs of
                  Inl e \<Rightarrow> (Inl e, fs)
                | Inr combined_df \<Rightarrow>
                    (case clean_and_normalize to_datetime to_numeric combined_df of
                       Inl e \<Rightarrow> (Inl e, fs)
                     | Inr clean_df \<Rightarrow>
                         (Inr clean_df,
                          fs\<lparr>silver_store := (silver_store fs)(SILVER_CLEAN_PATH \<mapsto> clean_df)\<rparr>)))))"

subsection \<open>Sample conversions\<close>

text \<open>
  Two instances of the parameters, for the worked examples only. \<open>year_month\<close> accepts
  four digits, a hyphen and a two-digit month from 01 to 12, and gives the first day of that
  month; \<open>decimal\<close> accepts digits with an optional fraction (\<^verbatim>\<open>150\<close>, \<^verbatim>\<open>100.5\<close>), JSON
  numbers as they are, and gives \<^verbatim>\<open>NaN\<close> otherwise. pandas accepts more strings than these
  (a one-digit month, a sign, an exponent); the general results below hold for every pair
  of conversions and do not depend on these two.
\<close>

definition digit_of :: "char \<Rightarrow> nat option" where
  "digit_of = map_of (zip ''0123456789'' [0, 1, 2, 3, 4, 5, 6, 7, 8, 9])"

fun digits_value :: "string \<Rightarrow> nat \<Rightarrow> nat option" where
  "digits_value [] acc = Some acc"
| "digits_value (ch # s) acc =
     (case digit_of ch of None \<Rightarrow> None | Some d \<Rightarrow> digits_value s (10 * acc + d))"

definition year_month :: "string \<Rightarrow> timestamp option" where
  "year_month s =
     (if length s = 7 \<and> s ! 4 = CHR ''-''
      then (case (digits_value (take 4 s) 0, digits_value (drop 5 s) 0) of
              (Some y, Some m) \<Rightarrow>
                if 1 \<le> m \<and> m \<le> 12
                then Some \<lparr>ts_year = int y, ts_month = int m, ts_day = 1\<rparr>
                else None
            | _ \<Rightarrow> None)
      else None)"

definition decimal :: "json \<Rightarrow> fval" where
  "decimal j =
     (case j of
        JNull \<Rightarrow> NaN
      | JNumber x \<Rightarrow> Fin x
      | JString s \<Rightarrow>
          (let ip = takeWhile (\<lambda>ch. ch \<noteq> CHR ''.'') s;
               rest = dropWhile (\<lambda>ch. ch \<noteq> CHR ''.'') s;
               fp = (if rest = [] then [] else tl rest)
           in if ip = [] then NaN
              else (case (digits_value ip 0, digits_value fp 0) of
                      (Some a, Some b) \<Rightarrow> Fin (real a + real b / 10 ^ length fp)
                    | _ \<Rightarrow> NaN)))"


section \<open>Gold layer (\<^verbatim>\<open>src/gold/aggregate.py\<close>)\<close>

subsection \<open>\<^verbatim>\<open>calculate_annual_averages\<close>\<close>

text \<open>
  \<^verbatim>\<open>df.groupby(["year", "component"])["value_mbblpd"].mean().reset_index()\<close>: one
  output row per distinct key, keys in ascending order.
\<close>

definition group_keys :: "clean_row list \<Rightarrow> (int \<times> string) list" where
  "group_keys df = sort (remdups (map (\<lambda>r. (year r, component r)) df))"

definition group_values :: "clean_row list \<Rightarrow> int \<times> string \<Rightarrow> fval list" where
  "group_values df k = map value_mbblpd (filter (\<lambda>r. (year r, component r) = k) df)"

definition calculate_annual_averages :: "clean_row list \<Rightarrow> annual_row list" where
  "calculate_annual_averages df =
     map (\<lambda>k. \<lparr>year = fst k, component = snd k,
                annual_avg_mbblpd = nanmean (group_values df k)\<rparr>)
         (group_keys df)"

subsection \<open>\<^verbatim>\<open>pivot_to_wide_format\<close>\<close>

text \<open>
  \<^verbatim>\<open>df.pivot(index="year", columns="component", values="annual_avg_mbblpd").reset_index()\<close>:
  one row per year and one column per component, both ascending; a (year, component)
  pair without a row in \<open>df\<close> gets \<^verbatim>\<open>NaN\<close>; a pair with two rows is an error, and so
  is a component called \<^verbatim>\<open>year\<close>, which \<^verbatim>\<open>reset_index\<close> cannot insert.
\<close>

definition pivot :: "annual_row list \<Rightarrow> error + frame" where
  "pivot df =
     (let keys = map (\<lambda>r. (year r, component r)) df;
          years = sort (remdups (map year df));
          comps = sort (remdups (map component df))
      in if \<not> distinct keys then Inl DuplicateEntries
         else if ''year'' \<in> set comps then Inl CannotInsertYear
         else Inr \<lparr>columns = ''year'' # comps,
                   rows = map (\<lambda>y. \<lparr>wyear = y,
                                      cells = map (\<lambda>c. (c, case map_of (zip keys (map annual_avg_mbblpd df)) (y, c) of
                                                              Some v \<Rightarrow> v | None \<Rightarrow> NaN)) comps\<rparr>)
                              years\<rparr>)"

text \<open>\<^verbatim>\<open>wide_df[["year"] + component_order]\<close>: the listed columns, in the listed order.\<close>

definition select_year_and :: "string list \<Rightarrow> frame \<Rightarrow> frame" where
  "select_year_and component_order df =
     \<lparr>columns = ''year'' # component_order,
      rows = map (\<lambda>r. r\<lparr>cells := map (\<lambda>c. (c, cell r c)) component_order\<rparr>) (rows df)\<rparr>"

definition pivot_to_wide_format :: "annual_row list \<Rightarrow> error + frame" where
  "pivot_to_wide_format df =
     (case pivot df of
        Inl e \<Rightarrow> Inl e
      | Inr wide_df \<Rightarrow>
          (let component_order =
                 filter (\<lambda>c. c \<in> set SUPPLY_COMPONENTS \<and> c \<in> set (columns wide_df))
                        (map snd SERIES_MAPPING)
                 @ filter (\<lambda>c. c \<in> set DISPOSITION_COMPONENTS \<and> c \<in> set (columns wide_df))
                          (map snd SERIES_MAPPING)
           in Inr (select_year_and component_order wide_df)))"

subsection \<open>\<^verbatim>\<open>add_balance_check\<close>\<close>

definition add_balance_check :: "frame \<Rightarrow> frame" where
  "add_balance_check df =
     (let supply_cols = filter (\<lambda>col. col \<in> set SUPPLY_COMPONENTS) (columns df);
          df1 = (if supply_cols \<noteq> []
                 then assign ''Total_Supply'' (\<lambda>r. nansum (map (cell r) supply_cols)) df
                 else df);
          disposition_cols = filter (\<lambda>col. col \<in> set DISPOSITION_COMPONENTS) (columns df1);
          df2 = (if disposition_cols \<noteq> []
                 then assign ''Total_Disposition'' (\<lambda>r. nansum (map (cell r) disposition_cols)) df1
                 else df1)
      in if ''Total_Supply'' \<in> set (columns df2) \<and> ''Total_Disposition'' \<in> set (columns df2)
         then (let df3 = assign ''Balance_Difference''
                            (\<lambda>r. fsub (cell r ''Total_Supply'') (cell r ''Total_Disposition'')) df2
               in assign ''Balance_Pct_Diff''
                    (\<lambda>r. fround 3 (fmul (fdiv (cell r ''Balance_Difference'') (cell r ''Total_Supply''))
                                         (Fin 100))) df3)
         else df2)"

subsection \<open>Objects and files\<close>

text \<open>
  A wide table is a mutable object: \<open>add_balance_check\<close> writes its columns into the
  table it is given, and \<open>save_annual_data\<close> works on a copy. The heap is the list of
  the tables allocated so far, a reference is an index into it.
\<close>

text \<open>
  \<^verbatim>\<open>save_annual_data\<close>: \<^verbatim>\<open>df.copy()\<close> allocates \<open>df_rounded\<close>; each numeric column
  but \<^verbatim>\<open>year\<close> (every column of a wide table is numeric) is rounded in the copy; the
  copy is written to the output path, which is returned.
\<close>

definition round_column :: "nat \<Rightarrow> string \<Rightarrow> frame list \<Rightarrow> frame list" where
  "round_column df_rounded col h =
     (if col \<noteq> ''year''
      then h[df_rounded := assign col (\<lambda>r. fround 3 (cell r col)) (h ! df_rounded)]
      else h)"

definition save_annual_data ::
  "nat \<Rightarrow> string option \<Rightarrow> frame list \<times> filesystem \<Rightarrow> string \<times> frame list \<times> filesystem" where
  "save_annual_data df output_path w =
     (let h = fst w; fs = snd w;
          path = (case output_path of None \<Rightarrow> GOLD_ANNUAL_PATH | Some p \<Rightarrow> p);
          df_rounded = length h;
          h1 = h @ [h ! df];
          numeric_cols = columns (h1 ! df_rounded);
          h2 = fold (round_column df_rounded) numeric_cols h1
      in (path, h2, fs\<lparr>gold_store := (gold_store fs)(path \<mapsto> h2 ! df_rounded)\<rparr>))"

text \<open>
  \<^verbatim>\<open>GoldAggregation.__init__\<close> and \<^verbatim>\<open>load_clean_data\<close>: the object is its
  \<^verbatim>\<open>silver_path\<close>; both fail when no file is there.
\<close>

definition GoldAggregation_init :: "string option \<Rightarrow> filesystem \<Rightarrow> error + string" where
  "GoldAggregation_init silver_path fs =
     (let p = (case silver_path of None \<Rightarrow> SILVER_CLEAN_PATH | Some p \<Rightarrow> p)
      in if silver_store fs p = None then Inl (FileNotFoundError p) else Inr p)"

definition load_clean_data :: "string \<Rightarrow> filesystem \<Rightarrow> error + clean_row list" where
  "load_clean_data self fs =
     (case silver_store fs self of None \<Rightarrow> Inl (FileNotFoundError self) | Some df \<Rightarrow> Inr df)"

text \<open>
  \<^verbatim>\<open>GoldAggregation.run\<close>: the result is the reference of \<open>wide_df\<close>, the table that
  \<open>pivot_to_wide_format\<close> allocated and \<open>add_balance_check\<close> extended in place.
\<close>

definition GoldAggregation_run ::
  "string \<Rightarrow> frame list \<times> filesystem \<Rightarrow> (error + nat) \<times> frame list \<times> filesystem" where
  "GoldAggregation_run self w =
     (case load_clean_data self (snd w) of
        Inl e \<Rightarrow> (Inl e, w)
      | Inr clean_df \<Rightarrow>
          (let annual_avg = calculate_annual_averages clean_df
           in case pivot_to_wide_format annual_avg of
                Inl e \<Rightarrow> (Inl e, w)
              | Inr wide \<Rightarrow>
                  (let wide_df = length (fst w);
                       h1 = fst w @ [wide];
                       h2 = h1[wide_df := add_balance_check (h1 ! wide_df)];
                       saved = save_annual_data wide_df None (h2, snd w)
                   in (Inr wide_df, snd saved))))"

section \<open>Auxiliary definitions and worked inputs\<close>

text \<open>The table that holds the column \<^verbatim>\<open>year\<close> and no row.\<close>

definition empty_frame :: frame where
  "empty_frame = \<lparr>columns = [''year''], rows = []\<rparr>"

text \<open>A file system whose silver file holds the header line only.\<close>

definition fs_no_rows :: filesystem where
  "fs_no_rows =
     \<lparr>bronze_store = Map.empty, silver_store = [SILVER_CLEAN_PATH \<mapsto> []], gold_store = Map.empty\<rparr>"

text \<open>\<open>add_balance_check\<close> up to and including its two totals.\<close>

definition with_totals :: "frame \<Rightarrow> frame" where
  "with_totals df =
     (let supply_cols = filter (\<lambda>col. col \<in> set SUPPLY_COMPONENTS) (columns df);
          df1 = (if supply_cols \<noteq> []
                 then assign ''Total_Supply'' (\<lambda>r. nansum (map (cell r) supply_cols)) df
                 else df);
          disposition_cols = filter (\<lambda>col. col \<in> set DISPOSITION_COMPONENTS) (columns df1)
      in if disposition_cols \<noteq> []
         then assign ''Total_Disposition'' (\<lambda>r. nansum (map (cell r) disposition_cols)) df1
         else df1)"

text \<open>Two wide tables: a year with no Supply observation, and a year whose Supply is zero.\<close>

definition year_without_supply :: frame where
  "year_without_supply =
     \<lparr>columns = [''year'', ''Production'', ''Exports''],
      rows = [\<lparr>wyear = 2020, cells = [(''Production'', Fin 100), (''Exports'', Fin 30)]\<rparr>,
              \<lparr>wyear = 2021, cells = [(''Production'', NaN), (''Exports'', Fin 30)]\<rparr>]\<rparr>"




text \<open>
  Monthly observations of \<^verbatim>\<open>Production\<close>: the two years of the unit test
  \<^verbatim>\<open>test_calculate_annual_averages\<close> (twelve months at 100, then twelve at 200), and
  one year with six months at 100 and six at 200.
\<close>

definition monthly :: "int \<Rightarrow> real \<Rightarrow> int \<Rightarrow> clean_row" where
  "monthly y v m =
     \<lparr>year = y, component = ''Production'',
      date = \<lparr>ts_year = y, ts_month = m, ts_day = 1\<rparr>, series_id = ''MDIRPP32'',
      value_mbblpd = Fin v, month = m, category = ''Supply''\<rparr>"



text \<open>
  Long annual tables: the one of the unit test \<^verbatim>\<open>test_pivot_handles_missing_components\<close>,
  and one with a component that the catalog does not classify.
\<close>

definition imports_missing_2021 :: "annual_row list" where
  "imports_missing_2021 =
     [\<lparr>year = 2020, component = ''Production'', annual_avg_mbblpd = Fin 100\<rparr>,
      \<lparr>year = 2020, component = ''Imports'', annual_avg_mbblpd = Fin 50\<rparr>,
      \<lparr>year = 2021, component = ''Production'', annual_avg_mbblpd = Fin 110\<rparr>]"


text \<open>
  The row that normalization builds from one raw row whose period parses: the date is the
  parsed period, \<^verbatim>\<open>year\<close> and \<^verbatim>\<open>month\<close> are read off the date, the value is the
  coerced raw value, the category follows the component.
\<close>

definition normalized_row ::
  "(string \<Rightarrow> timestamp option) \<Rightarrow> (json \<Rightarrow> fval) \<Rightarrow> raw_row \<Rightarrow> clean_row" where
  "normalized_row to_datetime to_numeric r =
     \<lparr>year = ts_year (the (to_datetime (period r))), component = raw_component r,
      date = the (to_datetime (period r)), series_id = raw_series_id r,
      value_mbblpd = to_numeric (raw_value r),
      month = ts_month (the (to_datetime (period r))),
      category = classify (raw_component r)\<rparr>"

text \<open>A response without an observation list, or with an empty one.\<close>

definition no_observations :: "api_response \<Rightarrow> bool" where
  "no_observations resp =
     (case response resp of
        None \<Rightarrow> True
      | Some env \<Rightarrow> (case data env of None \<Rightarrow> True | Some records \<Rightarrow> records = []))"

text \<open>
  Raw batches of the series \<^verbatim>\<open>MDIRPP32\<close>: the periods and values of the unit test
  \<^verbatim>\<open>test_clean_and_normalize\<close>, four rows, one of them with a value that is not a number;
  and two rows, one of them with a period that is not a year and a month.
\<close>

definition raw_production :: "string \<Rightarrow> string \<Rightarrow> raw_row" where
  "raw_production p v =
     \<lparr>period = p, raw_value = JString v,
      raw_series_id = ''MDIRPP32'', raw_component = ''Production''\<rparr>"

definition one_invalid_value :: "raw_row list" where
  "one_invalid_value =
     [raw_production ''2020-01'' ''100.5'', raw_production ''2020-02'' ''200.3'',
      raw_production ''2020-03'' ''invalid'', raw_production ''2020-04'' ''150.0'']"

definition one_invalid_period :: "raw_row list" where
  "one_invalid_period =
     [raw_production ''2020-01'' ''100.5'', raw_production ''Q1 2020'' ''200.3'']"

text \<open>
  A bronze file in which no series has observations: no \<^verbatim>\<open>response\<close>, no \<^verbatim>\<open>data\<close>,
  and an empty \<^verbatim>\<open>data\<close> list.
\<close>

definition fs_no_observations :: filesystem where
  "fs_no_observations =
     \<lparr>bronze_store =
        [BRONZE_RAW_PATH \<mapsto>
           [(''MDIRPP32'', \<lparr>response = None\<rparr>),
            (''MDIIMP32'', \<lparr>response = Some \<lparr>data = None\<rparr>\<rparr>),
            (''MDIEXP32'', \<lparr>response = Some \<lparr>data = Some []\<rparr>\<rparr>)]],
      silver_store = Map.empty, gold_store = Map.empty\<rparr>"

text \<open>
  The loop of \<open>save_annual_data\<close> seen on the copy alone: every column but \<^verbatim>\<open>year\<close>
  is replaced by its rounding to 3 decimals.
\<close>

definition round_step :: "string \<Rightarrow> frame \<Rightarrow> frame" where
  "round_step col g = (if col \<noteq> ''year'' then assign col (\<lambda>r. fround 3 (cell r col)) g else g)"

definition rounded_copy :: "frame \<Rightarrow> frame" where
  "rounded_copy f = fold round_step (columns f) f"

text \<open>
  Three months of \<^verbatim>\<open>Production\<close> whose mean, \<open>301 / 3\<close>, has no finite decimal expansion,
  and a file system whose silver file holds them.
\<close>

definition three_months :: "clean_row list" where
  "three_months = [monthly 2020 100 1, monthly 2020 100 2, monthly 2020 101 3]"

definition fs_three_months :: filesystem where
  "fs_three_months =
     \<lparr>bronze_store = Map.empty, silver_store = [SILVER_CLEAN_PATH \<mapsto> three_months],
      gold_store = Map.empty\<rparr>"

definition production_2020 :: "real \<Rightarrow> frame" where
  "production_2020 v =
     \<lparr>columns = [''year'', ''Production'', ''Total_Supply''],
      rows = [\<lparr>wyear = 2020, cells = [(''Production'', Fin v), (''Total_Supply'', Fin v)]\<rparr>]\<rparr>"


section \<open>Properties\<close>

subsection \<open>Cells and columns\<close>

lemma fadd_zero_left: "fadd (Fin 0) v = v"
  by (cases v) simp_all

lemma nansum_skips_absent: "nansum vs = fsum (filter (\<lambda>v. \<not> isna v) vs)"
  by (induction vs) (simp_all add: nansum_def fadd_zero_left)

lemma nansum_all_absent: "list_all isna vs \<Longrightarrow> nansum vs = Fin 0"
  by (induction vs) (simp_all add: nansum_def fadd_zero_left)

lemma columns_assign:
  "columns (assign c s df) = (if c \<in> set (columns df) then columns df else columns df @ [c])"
  by (simp add: assign_def)

lemma length_rows_assign: "length (rows (assign c s df)) = length (rows df)"
  by (simp add: assign_def)

lemma map_of_cells_assign:
  "i < length (rows df) \<Longrightarrow>
     map_of (cells (rows (assign c s df) ! i)) k =
       (if k = c then Some (s (rows df ! i)) else map_of (cells (rows df ! i)) k)"
  by (simp add: assign_def update_conv')

lemma cell_assign:
  "i < length (rows df) \<Longrightarrow>
     cell (rows (assign c s df) ! i) k = (if k = c then s (rows df ! i) else cell (rows df ! i) k)"
  by (simp add: cell_def map_of_cells_assign)

lemma map_cell_assign:
  "i < length (rows df) \<Longrightarrow> c \<notin> set cs \<Longrightarrow>
     map (cell (rows (assign c s df) ! i)) cs = map (cell (rows df ! i)) cs"
  by (induction cs) (auto simp: cell_assign)

lemma filter_columns_assign:
  "\<not> P c \<Longrightarrow> filter P (columns (assign c s df)) = filter P (columns df)"
  by (simp add: columns_assign)


lemma total_labels:
  "''Total_Supply'' \<notin> set SUPPLY_COMPONENTS" "''Total_Supply'' \<notin> set DISPOSITION_COMPONENTS"
  "''Total_Disposition'' \<notin> set SUPPLY_COMPONENTS" "''Total_Disposition'' \<notin> set DISPOSITION_COMPONENTS"
  by (simp_all add: SUPPLY_COMPONENTS_def DISPOSITION_COMPONENTS_def)

lemma add_balance_check_with_totals:
  "add_balance_check df =
     (if ''Total_Supply'' \<in> set (columns (with_totals df)) \<and> ''Total_Disposition'' \<in> set (columns (with_totals df))
      then assign ''Balance_Pct_Diff''
             (\<lambda>r. fround 3 (fmul (fdiv (cell r ''Balance_Difference'') (cell r ''Total_Supply'')) (Fin 100)))
             (assign ''Balance_Difference''
                (\<lambda>r. fsub (cell r ''Total_Supply'') (cell r ''Total_Disposition'')) (with_totals df))
      else with_totals df)"
  unfolding add_balance_check_def with_totals_def Let_def by (rule refl)

lemma length_rows_with_totals: "length (rows (with_totals df)) = length (rows df)"
  by (simp add: with_totals_def Let_def length_rows_assign)

lemma with_totals_supply:
  assumes "i < length (rows df)"
      and "filter (\<lambda>col. col \<in> set SUPPLY_COMPONENTS) (columns df) \<noteq> []"
  shows "map_of (cells (rows (with_totals df) ! i)) ''Total_Supply'' =
           Some (nansum (map (cell (rows df ! i)) (filter (\<lambda>col. col \<in> set SUPPLY_COMPONENTS) (columns df))))"
  using assms by (simp add: with_totals_def Let_def map_of_cells_assign length_rows_assign)

lemma with_totals_disposition:
  assumes "i < length (rows df)"
      and "filter (\<lambda>col. col \<in> set DISPOSITION_COMPONENTS) (columns df) \<noteq> []"
  shows "map_of (cells (rows (with_totals df) ! i)) ''Total_Disposition'' =
           Some (nansum (map (cell (rows df ! i)) (filter (\<lambda>col. col \<in> set DISPOSITION_COMPONENTS) (columns df))))"
proof -
  let ?P = "\<lambda>col. col \<in> set DISPOSITION_COMPONENTS"
  have notin: "''Total_Supply'' \<notin> set (filter ?P (columns df))"
    using total_labels by simp
  show ?thesis
    using assms notin
    by (simp add: with_totals_def Let_def map_of_cells_assign length_rows_assign
        filter_columns_assign total_labels map_cell_assign)
qed

lemma map_of_cells_add_balance_check_totals:
  assumes "i < length (rows df)" and "k = ''Total_Supply'' \<or> k = ''Total_Disposition''"
  shows "map_of (cells (rows (add_balance_check df) ! i)) k = map_of (cells (rows (with_totals df) ! i)) k"
  using assms
  by (auto simp: add_balance_check_with_totals map_of_cells_assign length_rows_assign length_rows_with_totals)

subsection \<open>Aggregating zero rows\<close>

lemma pivot_to_wide_format_Nil: "pivot_to_wide_format [] = Inr empty_frame"
  by (simp add: pivot_to_wide_format_def pivot_def select_year_and_def SERIES_MAPPING_def empty_frame_def)

lemma add_balance_check_empty_frame: "add_balance_check empty_frame = empty_frame"
  by (simp add: add_balance_check_def empty_frame_def SUPPLY_COMPONENTS_def DISPOSITION_COMPONENTS_def)

lemma save_annual_data_empty_frame:
  "save_annual_data (length h) None (h @ [empty_frame], fs) =
     (GOLD_ANNUAL_PATH, h @ [empty_frame, empty_frame],
      fs\<lparr>gold_store := (gold_store fs)(GOLD_ANNUAL_PATH \<mapsto> empty_frame)\<rparr>)"
  by (simp add: save_annual_data_def round_column_def empty_frame_def Let_def nth_append)

lemma GoldAggregation_run_Nil:
  "silver_store fs self = Some [] \<Longrightarrow>
     GoldAggregation_run self (h, fs) =
       (Inr (length h), h @ [empty_frame, empty_frame],
        fs\<lparr>gold_store := (gold_store fs)(GOLD_ANNUAL_PATH \<mapsto> empty_frame)\<rparr>)"
  by (simp add: GoldAggregation_run_def load_clean_data_def calculate_annual_averages_def group_keys_def
      pivot_to_wide_format_Nil add_balance_check_empty_frame save_annual_data_empty_frame)

text \<open>
  Counterexample to C2. With a silver file of zero rows the aggregation run raises nothing:
  it returns a table (reference \<open>0\<close> of the heap) and writes the gold file, a table with
  the single column \<^verbatim>\<open>year\<close> and no row.
\<close>

theorem aggregate_zero_rows_no_error_counterexample:
  "fst (GoldAggregation_run SILVER_CLEAN_PATH ([], fs_no_rows)) = Inr 0
   \<and> gold_store (snd (snd (GoldAggregation_run SILVER_CLEAN_PATH ([], fs_no_rows)))) GOLD_ANNUAL_PATH
       = Some \<lparr>columns = [''year''], rows = []\<rparr>"
proof -
  have "silver_store fs_no_rows SILVER_CLEAN_PATH = Some []"
    by (simp add: fs_no_rows_def)
  from GoldAggregation_run_Nil [OF this, of "[]"] show ?thesis
    by (simp add: empty_frame_def)
qed

text \<open>
  C2, as amended. Whenever the silver file holds zero observation rows, the aggregation run
  raises no error: it allocates the table with the single column \<^verbatim>\<open>year\<close> and no
  row, returns its reference, and writes that empty table to the gold file.
\<close>

theorem aggregate_zero_rows_writes_empty_table:
  assumes "silver_store fs self = Some []"
  shows "GoldAggregation_run self (h, fs) =
           (Inr (length h),
            h @ [\<lparr>columns = [''year''], rows = []\<rparr>, \<lparr>columns = [''year''], rows = []\<rparr>],
            fs\<lparr>gold_store := (gold_store fs)(GOLD_ANNUAL_PATH \<mapsto> \<lparr>columns = [''year''], rows = []\<rparr>)\<rparr>)"
  using GoldAggregation_run_Nil [OF assms, of h] by (simp add: empty_frame_def)

theorem aggregate_zero_rows_writes_empty_table_witness:
  "silver_store fs_no_rows SILVER_CLEAN_PATH = Some []
   \<and> GoldAggregation_run SILVER_CLEAN_PATH ([], fs_no_rows) =
       (Inr 0,
        [\<lparr>columns = [''year''], rows = []\<rparr>, \<lparr>columns = [''year''], rows = []\<rparr>],
        fs_no_rows\<lparr>gold_store := (gold_store fs_no_rows)(GOLD_ANNUAL_PATH \<mapsto> \<lparr>columns = [''year''], rows = []\<rparr>)\<rparr>)"
proof -
  have h: "silver_store fs_no_rows SILVER_CLEAN_PATH = Some []"
    by (simp add: fs_no_rows_def)
  from aggregate_zero_rows_writes_empty_table [OF h, of "[]"] h show ?thesis
    by simp
qed

subsection \<open>Totals of a yearly row\<close>

text \<open>
  Counterexample to C1. In the year 2021 of \<open>year_without_supply\<close> every Supply value
  (there is one Supply column, \<^verbatim>\<open>Production\<close>) is absent, and \<^verbatim>\<open>Total_Supply\<close> is the
  number \<open>0\<close>, not the absent marker.
\<close>

theorem all_absent_total_is_zero_counterexample:
  "map cells (rows (add_balance_check year_without_supply)) =
     [[(''Production'', Fin 100), (''Exports'', Fin 30), (''Total_Supply'', Fin 100),
       (''Total_Disposition'', Fin 30), (''Balance_Difference'', Fin 70), (''Balance_Pct_Diff'', Fin 70)],
      [(''Production'', NaN), (''Exports'', Fin 30), (''Total_Supply'', Fin 0),
       (''Total_Disposition'', Fin 30), (''Balance_Difference'', Fin (- 30)),
       (''Balance_Pct_Diff'', Infty False)]]"
  by (simp add: add_balance_check_def year_without_supply_def assign_def cell_def nansum_def fsub_def
      SUPPLY_COMPONENTS_def DISPOSITION_COMPONENTS_def rint_def Let_def)

text \<open>
  C1, as amended. In every row of a wide table the totals are sums that skip absent values:
  \<^verbatim>\<open>Total_Supply\<close> (resp. \<^verbatim>\<open>Total_Disposition\<close>) is the sum of the present values of the
  Supply (resp. Disposition) columns of that row, and when every such value of the row is
  absent the total is the number \<open>0\<close>.
\<close>

theorem totals_skip_absent_values:
  assumes "i < length (rows df)"
      and "supply_cols = filter (\<lambda>col. col \<in> set SUPPLY_COMPONENTS) (columns df)"
      and "disposition_cols = filter (\<lambda>col. col \<in> set DISPOSITION_COMPONENTS) (columns df)"
      and "r = rows df ! i"
      and "r' = rows (add_balance_check df) ! i"
  shows "(supply_cols \<noteq> [] \<longrightarrow>
            map_of (cells r') ''Total_Supply'' =
              Some (fsum (filter (\<lambda>v. \<not> isna v) (map (cell r) supply_cols))))
       \<and> (disposition_cols \<noteq> [] \<longrightarrow>
            map_of (cells r') ''Total_Disposition'' =
              Some (fsum (filter (\<lambda>v. \<not> isna v) (map (cell r) disposition_cols))))
       \<and> (supply_cols \<noteq> [] \<and> list_all isna (map (cell r) supply_cols) \<longrightarrow>
            map_of (cells r') ''Total_Supply'' = Some (Fin 0))
       \<and> (disposition_cols \<noteq> [] \<and> list_all isna (map (cell r) disposition_cols) \<longrightarrow>
            map_of (cells r') ''Total_Disposition'' = Some (Fin 0))"
proof -
  have s: "map_of (cells r') ''Total_Supply'' = Some (nansum (map (cell r) supply_cols))"
    if "supply_cols \<noteq> []"
    using that assms
    by (simp add: map_of_cells_add_balance_check_totals with_totals_supply)
  have d: "map_of (cells r') ''Total_Disposition'' = Some (nansum (map (cell r) disposition_cols))"
    if "disposition_cols \<noteq> []"
    using that assms
    by (simp add: map_of_cells_add_balance_check_totals with_totals_disposition)
  show ?thesis
    using s d by (auto simp: nansum_skips_absent [symmetric] nansum_all_absent)
qed

theorem totals_skip_absent_values_witness:
  "(1::nat) < length (rows year_without_supply)
   \<and> filter (\<lambda>col. col \<in> set SUPPLY_COMPONENTS) (columns year_without_supply) = [''Production'']
   \<and> filter (\<lambda>col. col \<in> set DISPOSITION_COMPONENTS) (columns year_without_supply) = [''Exports'']
   \<and> list_all isna (map (cell (rows year_without_supply ! 1)) [''Production''])
   \<and> map_of (cells (rows (add_balance_check year_without_supply) ! 1)) ''Total_Supply'' = Some (Fin 0)
   \<and> map_of (cells (rows (add_balance_check year_without_supply) ! 1)) ''Total_Disposition'' = Some (Fin 30)"
proof -
  have a: "(1::nat) < length (rows year_without_supply)"
    by (simp add: year_without_supply_def)
  have b: "filter (\<lambda>col. col \<in> set SUPPLY_COMPONENTS) (columns year_without_supply) = [''Production'']"
    by (simp add: year_without_supply_def SUPPLY_COMPONENTS_def)
  have c: "filter (\<lambda>col. col \<in> set DISPOSITION_COMPONENTS) (columns year_without_supply) = [''Exports'']"
    by (simp add: year_without_supply_def DISPOSITION_COMPONENTS_def)
  have e: "map (cell (rows year_without_supply ! 1)) [''Production''] = [NaN]"
       "map (cell (rows year_without_supply ! 1)) [''Exports''] = [Fin 30]"
    by (simp_all add: year_without_supply_def cell_def)
  from totals_skip_absent_values [OF a b [symmetric] c [symmetric] refl refl]
  show ?thesis using a b c e by simp
qed

subsection \<open>The balance of a yearly row\<close>










subsection \<open>Annual averages\<close>













subsection \<open>The pivot to wide format\<close>

lemma map_of_map_label:
  "map_of (map (\<lambda>c. (c, f c)) cs) c = (if c \<in> set cs then Some (f c) else None)"
  by (induction cs) auto

lemma pivot_Inr:
  assumes "pivot df = Inr p"
  shows "columns p = ''year'' # sort (remdups (map component df))"
    and "rows p =
           map (\<lambda>y. \<lparr>wyear = y,
                      cells = map (\<lambda>c. (c, case map_of (zip (map (\<lambda>r. (year r, component r)) df)
                                                          (map annual_avg_mbblpd df)) (y, c) of
                                              Some v \<Rightarrow> v | None \<Rightarrow> NaN))
                                  (sort (remdups (map component df)))\<rparr>)
               (sort (remdups (map year df)))"
    and "''year'' \<notin> set (map component df)"
  using assms by (auto simp: pivot_def Let_def split: if_splits)

lemma pivot_in_columns:
  assumes "pivot df = Inr p"
  shows "c \<in> set (columns p) \<longleftrightarrow> c = ''year'' \<or> c \<in> set (map component df)"
  using pivot_Inr(1) [OF assms] by auto

lemma pivot_cell_absent:
  assumes "pivot df = Inr p" and "r \<in> set (rows p)" and "c \<in> set (map component df)"
      and "(wyear r, c) \<notin> set (map (\<lambda>a. (year a, component a)) df)"
  shows "cell r c = NaN"
proof -
  let ?keys = "map (\<lambda>r. (year r, component r)) df"
  let ?m = "map_of (zip ?keys (map annual_avg_mbblpd df))"
  let ?comps = "sort (remdups (map component df))"
  from assms(2) pivot_Inr(2) [OF assms(1)]
  obtain y where r: "r = \<lparr>wyear = y, cells = map (\<lambda>c. (c, case ?m (y, c) of Some v \<Rightarrow> v | None \<Rightarrow> NaN)) ?comps\<rparr>"
    by auto
  have "(y, c) \<notin> set ?keys"
    using assms(4) r by simp
  then have "?m (y, c) = None"
    by (intro iffD2 [OF map_of_zip_is_None]) simp_all
  then have none: "(case ?m (y, c) of Some v \<Rightarrow> v | None \<Rightarrow> NaN) = NaN"
    by (simp only: option.case)
  have "c \<in> set ?comps"
    using assms(3) by simp
  then have "map_of (cells r) c = Some (case ?m (y, c) of Some v \<Rightarrow> v | None \<Rightarrow> NaN)"
    unfolding r by (simp only: wrow.simps map_of_map_label if_True)
  with none show ?thesis
    by (simp add: cell_def)
qed

lemma pivot_to_wide_format_Inr:
  assumes "pivot_to_wide_format df = Inr wide"
  obtains p where "pivot df = Inr p"
    and "wide = select_year_and
                  (filter (\<lambda>c. c \<in> set SUPPLY_COMPONENTS \<and> c \<in> set (columns p)) (map snd SERIES_MAPPING)
                   @ filter (\<lambda>c. c \<in> set DISPOSITION_COMPONENTS \<and> c \<in> set (columns p)) (map snd SERIES_MAPPING))
                  p"
  using assms by (auto simp: pivot_to_wide_format_def Let_def split: sum.splits)

lemma select_year_and_cells:
  assumes "r' \<in> set (rows (select_year_and order df))" and "c \<in> set order"
  shows "\<exists>r\<in>set (rows df). wyear r' = wyear r \<and> map_of (cells r') c = Some (cell r c)"
  using assms by (auto simp: select_year_and_def map_of_map_label)

text \<open>
  C6. In the wide table that \<open>pivot_to_wide_format\<close> returns, the cell of a year and a
  component column for which the long table has no row holds the absent marker \<^verbatim>\<open>NaN\<close>:
  \<open>isna\<close> tells it from every number, \<open>0\<close> included.
\<close>

theorem pivot_marks_missing_pairs_absent:
  assumes "pivot_to_wide_format df = Inr wide"
      and "r \<in> set (rows wide)"
      and "c \<in> set (columns wide)" and "c \<noteq> ''year''"
      and "(wyear r, c) \<notin> set (map (\<lambda>a. (year a, component a)) df)"
  shows "map_of (cells r) c = Some NaN \<and> isna (cell r c) \<and> (\<forall>x. cell r c \<noteq> Fin x)"
proof -
  from assms(1) obtain p where p: "pivot df = Inr p"
    and w: "wide = select_year_and
                  (filter (\<lambda>c. c \<in> set SUPPLY_COMPONENTS \<and> c \<in> set (columns p)) (map snd SERIES_MAPPING)
                   @ filter (\<lambda>c. c \<in> set DISPOSITION_COMPONENTS \<and> c \<in> set (columns p)) (map snd SERIES_MAPPING))
                  p" (is "wide = select_year_and ?order p")
    by (rule pivot_to_wide_format_Inr)
  have c_order: "c \<in> set ?order"
    using assms(3,4) w by (simp add: select_year_and_def)
  then have "c \<in> set (columns p)" by auto
  then have c_comp: "c \<in> set (map component df)"
    using pivot_in_columns [OF p] assms(4) by simp
  have "r \<in> set (rows (select_year_and ?order p))"
    using assms(2) w by simp
  from select_year_and_cells [OF this c_order]
  obtain r0 where r0: "r0 \<in> set (rows p)" "wyear r = wyear r0"
    "map_of (cells r) c = Some (cell r0 c)"
    by blast
  have "cell r0 c = NaN"
    using pivot_cell_absent [OF p r0(1) c_comp] assms(5) r0(2) by simp
  with r0(3) show ?thesis by (simp add: cell_def)
qed


lemma pivot_to_wide_format_imports_missing_2021:
  "pivot_to_wide_format imports_missing_2021 =
     Inr \<lparr>columns = [''year'', ''Production'', ''Imports''],
          rows = [\<lparr>wyear = 2020, cells = [(''Production'', Fin 100), (''Imports'', Fin 50)]\<rparr>,
                  \<lparr>wyear = 2021, cells = [(''Production'', Fin 110), (''Imports'', NaN)]\<rparr>]\<rparr>"
  by (simp add: pivot_to_wide_format_def pivot_def select_year_and_def imports_missing_2021_def
      SERIES_MAPPING_def SUPPLY_COMPONENTS_def DISPOSITION_COMPONENTS_def cell_def Let_def)

theorem pivot_marks_missing_pairs_absent_witness:
  "pivot_to_wide_format imports_missing_2021 =
     Inr \<lparr>columns = [''year'', ''Production'', ''Imports''],
          rows = [\<lparr>wyear = 2020, cells = [(''Production'', Fin 100), (''Imports'', Fin 50)]\<rparr>,
                  \<lparr>wyear = 2021, cells = [(''Production'', Fin 110), (''Imports'', NaN)]\<rparr>]\<rparr>
   \<and> (2021, ''Imports'') \<notin> set (map (\<lambda>a. (year a, component a)) imports_missing_2021)
   \<and> map_of [(''Production'', Fin 110), (''Imports'', NaN)] ''Imports'' = Some NaN
   \<and> isna (cell \<lparr>wyear = 2021, cells = [(''Production'', Fin 110), (''Imports'', NaN)]\<rparr> ''Imports'')"
proof -
  let ?r = "\<lparr>wyear = 2021, cells = [(''Production'', Fin 110), (''Imports'', NaN)]\<rparr>"
  let ?w = "\<lparr>columns = [''year'', ''Production'', ''Imports''],
          rows = [\<lparr>wyear = 2020, cells = [(''Production'', Fin 100), (''Imports'', Fin 50)]\<rparr>, ?r]\<rparr>"
  have a: "?r \<in> set (rows ?w)" by simp
  have b: "''Imports'' \<in> set (columns ?w)" by simp
  have c: "''Imports'' \<noteq> ''year''" by simp
  have d: "(wyear ?r, ''Imports'') \<notin> set (map (\<lambda>a. (year a, component a)) imports_missing_2021)"
    by (simp add: imports_missing_2021_def)
  from pivot_marks_missing_pairs_absent [OF pivot_to_wide_format_imports_missing_2021 a b c d]
  show ?thesis
    using pivot_to_wide_format_imports_missing_2021 d by simp
qed


subsection \<open>Column order of the wide table\<close>







subsection \<open>Normalization: periods that do not parse\<close>

lemma parse_dates_fails:
  "s \<in> set ss \<Longrightarrow> to_datetime s = None \<Longrightarrow>
     \<exists>s'. parse_dates to_datetime ss = Inl (TimeDataMismatch s') \<and> to_datetime s' = None"
proof (induction ss)
  case Nil
  then show ?case by simp
next
  case (Cons a ss)
  show ?case
  proof (cases "to_datetime a")
    case None
    then show ?thesis by auto
  next
    case (Some d)
    with Cons.prems have "s \<in> set ss" by auto
    from Cons.IH [OF this Cons.prems(2)] Some show ?thesis by auto
  qed
qed

lemma parse_dates_Inr:
  "parse_dates to_datetime ss = Inr ds \<Longrightarrow> map to_datetime ss = map Some ds"
  by (induction ss arbitrary: ds) (auto split: option.splits sum.splits)

lemma year_month_Q1: "year_month ''Q1 2020'' = None"
  by (simp add: year_month_def)

text \<open>
  C8. If the period of any one row of the raw table does not parse as a year and a month,
  the whole call of \<open>clean_and_normalize\<close> fails, with the \<^verbatim>\<open>ValueError\<close> of
  \<^verbatim>\<open>pd.to_datetime\<close> for a period that does not parse; no row is returned, whatever the
  other rows are.
\<close>

theorem unparsable_period_fails_whole_call:
  assumes "r \<in> set df" and "to_datetime (period r) = None"
  shows "\<exists>s. clean_and_normalize to_datetime to_numeric df = Inl (TimeDataMismatch s)
             \<and> to_datetime s = None"
proof -
  have "period r \<in> set (map period df)"
    using assms(1) by simp
  with parse_dates_fails [of "period r" "map period df" to_datetime] assms(2)
  show ?thesis
    by (auto simp: clean_and_normalize_def)
qed

theorem unparsable_period_fails_whole_call_witness:
  "raw_production ''Q1 2020'' ''200.3'' \<in> set one_invalid_period
   \<and> year_month (period (raw_production ''Q1 2020'' ''200.3'')) = None
   \<and> isl (clean_and_normalize year_month decimal one_invalid_period)"
proof -
  have a: "raw_production ''Q1 2020'' ''200.3'' \<in> set one_invalid_period"
    by (simp add: one_invalid_period_def)
  have b: "year_month (period (raw_production ''Q1 2020'' ''200.3'')) = None"
    by (simp add: raw_production_def year_month_Q1)
  from unparsable_period_fails_whole_call
         [of "raw_production ''Q1 2020'' ''200.3''" one_invalid_period year_month decimal] a b
  show ?thesis by auto
qed

subsection \<open>A bronze file without observations\<close>

lemma parse_series_data_no_observations:
  "no_observations resp \<Longrightarrow> parse_series_data sid resp = Inr []"
  by (auto simp: no_observations_def parse_series_data_def split: option.splits)

lemma parse_all_no_observations:
  "\<forall>item\<in>set items. no_observations (snd item) \<Longrightarrow> parse_all items dfs = Inr dfs"
  by (induction items dfs rule: parse_all.induct) (simp_all add: parse_series_data_no_observations)

text \<open>
  C9. If every series of the raw mapping has no observation list or an empty one, the
  run of the silver stage raises the \<^verbatim>\<open>ValueError\<close> of \<^verbatim>\<open>pd.concat\<close> (no objects to
  concatenate) and leaves the file system as it was: no silver file is written.
\<close>

theorem run_without_observations_raises:
  assumes "bronze_store fs self = Some raw_data"
      and "\<forall>item\<in>set raw_data. no_observations (snd item)"
  shows "SilverTransformation_run to_datetime to_numeric self fs = (Inl NoObjectsToConcatenate, fs)"
  using assms
  by (simp add: SilverTransformation_run_def parse_all_no_observations pd_concat_def)

theorem run_without_observations_raises_witness:
  "bronze_store fs_no_observations BRONZE_RAW_PATH =
     Some [(''MDIRPP32'', \<lparr>response = None\<rparr>),
           (''MDIIMP32'', \<lparr>response = Some \<lparr>data = None\<rparr>\<rparr>),
           (''MDIEXP32'', \<lparr>response = Some \<lparr>data = Some []\<rparr>\<rparr>)]
   \<and> no_observations \<lparr>response = None\<rparr>
   \<and> no_observations \<lparr>response = Some \<lparr>data = None\<rparr>\<rparr>
   \<and> no_observations \<lparr>response = Some \<lparr>data = Some []\<rparr>\<rparr>
   \<and> SilverTransformation_run year_month decimal BRONZE_RAW_PATH fs_no_observations
       = (Inl NoObjectsToConcatenate, fs_no_observations)"
proof -
  let ?raw = "[(''MDIRPP32'', \<lparr>response = None\<rparr>),
           (''MDIIMP32'', \<lparr>response = Some \<lparr>data = None\<rparr>\<rparr>),
           (''MDIEXP32'', \<lparr>response = Some \<lparr>data = Some []\<rparr>\<rparr>)]"
  have a: "bronze_store fs_no_observations BRONZE_RAW_PATH = Some ?raw"
    by (simp add: fs_no_observations_def)
  have b: "\<forall>item\<in>set ?raw. no_observations (snd item)"
    by (simp add: no_observations_def)
  from run_without_observations_raises [OF a b, of year_month decimal] a b
  show ?thesis by simp
qed


subsection \<open>Normalization: values that are not numbers\<close>

lemma built_rows:
  "parse_dates to_datetime (map period df) = Inr dates \<Longrightarrow>
     map (\<lambda>(r, d, v).
            \<lparr>year = ts_year d, component = raw_component r,
             date = d, series_id = raw_series_id r, value_mbblpd = v,
             month = ts_month d, category = classify (raw_component r)\<rparr>)
         (zip df (zip dates (map (\<lambda>r. to_numeric (raw_value r)) df)))
     = map (normalized_row to_datetime to_numeric) df"
proof (induction df arbitrary: dates)
  case Nil
  then show ?case by simp
next
  case (Cons r df)
  from Cons.prems obtain d ds where d: "to_datetime (period r) = Some d"
    and ds: "parse_dates to_datetime (map period df) = Inr ds" and dates: "dates = d # ds"
    by (auto split: option.splits sum.splits)
  from Cons.IH [OF ds] d dates show ?case
    by (simp add: normalized_row_def)
qed

lemma clean_and_normalize_Inr:
  assumes "clean_and_normalize to_datetime to_numeric df = Inr out"
  shows "out = filter (\<lambda>r. \<not> isna (value_mbblpd r))
                 (sort_key (\<lambda>r. (date_key (date r), component r))
                    (map (normalized_row to_datetime to_numeric) df))"
proof -
  from assms obtain dates where dates: "parse_dates to_datetime (map period df) = Inr dates"
    by (auto simp: clean_and_normalize_def split: sum.splits)
  have "clean_and_normalize to_datetime to_numeric df =
          Inr (filter (\<lambda>r. \<not> isna (value_mbblpd r))
                 (sort_key (\<lambda>r. (date_key (date r), component r))
                    (map (normalized_row to_datetime to_numeric) df)))"
    unfolding clean_and_normalize_def dates sum.case Let_def built_rows [OF dates] by (rule refl)
  with assms show ?thesis by simp
qed

lemma value_normalized_row:
  "value_mbblpd (normalized_row to_datetime to_numeric r) = to_numeric (raw_value r)"
  "year (normalized_row to_datetime to_numeric r) = ts_year (date (normalized_row to_datetime to_numeric r))"
  "month (normalized_row to_datetime to_numeric r) = ts_month (date (normalized_row to_datetime to_numeric r))"
  "date (normalized_row to_datetime to_numeric r) = the (to_datetime (period r))"
  by (simp_all add: normalized_row_def)

text \<open>
  C5. When \<open>clean_and_normalize\<close> returns, its rows are, up to order, the rows built from
  the raw rows whose value coerces to a number: the rows whose coercion gives \<^verbatim>\<open>NaN\<close> are
  dropped and no others, so the output has as many rows as the input less the failed
  coercions; no output row has an absent value, and \<^verbatim>\<open>year\<close> and \<^verbatim>\<open>month\<close> of every
  output row are those of its date, the parsed period. The four rows of the unit test,
  one with the value \<^verbatim>\<open>invalid\<close>, give three rows.
\<close>

theorem normalization_drops_exactly_failed_coercions:
  assumes "clean_and_normalize to_datetime to_numeric df = Inr out"
  shows "mset out =
           mset (map (normalized_row to_datetime to_numeric)
                     (filter (\<lambda>r. \<not> isna (to_numeric (raw_value r))) df))
       \<and> (\<forall>r\<in>set out. \<not> isna (value_mbblpd r)
                        \<and> year r = ts_year (date r) \<and> month r = ts_month (date r))
       \<and> length out = length df - length (filter (\<lambda>r. isna (to_numeric (raw_value r))) df)"
proof -
  let ?nr = "normalized_row to_datetime to_numeric"
  let ?ok = "\<lambda>r. \<not> isna (to_numeric (raw_value r))"
  note out = clean_and_normalize_Inr [OF assms]
  have "mset out = mset (filter (\<lambda>r. \<not> isna (value_mbblpd r)) (map ?nr df))"
    unfolding out by simp
  also have "filter (\<lambda>r. \<not> isna (value_mbblpd r)) (map ?nr df) = map ?nr (filter ?ok df)"
    by (simp add: filter_map comp_def value_normalized_row(1))
  finally have m: "mset out = mset (map ?nr (filter ?ok df))" .
  have "\<forall>r\<in>set out. \<not> isna (value_mbblpd r) \<and> year r = ts_year (date r) \<and> month r = ts_month (date r)"
    unfolding out by (auto simp: value_normalized_row(2,3))
  moreover have "length out = length df - length (filter (\<lambda>r. isna (to_numeric (raw_value r))) df)"
  proof -
    have "length out = length (filter ?ok df)"
      using m by (metis length_map size_mset)
    moreover have "length (filter ?ok df) + length (filter (\<lambda>r. isna (to_numeric (raw_value r))) df) = length df"
      using sum_length_filter_compl [of "\<lambda>r. isna (to_numeric (raw_value r))" df] by simp
    ultimately show ?thesis by simp
  qed
  ultimately show ?thesis using m by blast
qed

lemma clean_and_normalize_one_invalid_value:
  "clean_and_normalize year_month decimal one_invalid_value =
     Inr [monthly 2020 (201 / 2) 1, monthly 2020 (2003 / 10) 2, monthly 2020 150 4]"
  by (simp add: clean_and_normalize_def one_invalid_value_def raw_production_def year_month_def
      decimal_def digit_of_def date_key_def classify_def SUPPLY_COMPONENTS_def monthly_def)

theorem normalization_drops_exactly_failed_coercions_witness:
  "clean_and_normalize year_month decimal one_invalid_value =
     Inr [monthly 2020 (201 / 2) 1, monthly 2020 (2003 / 10) 2, monthly 2020 150 4]
   \<and> length one_invalid_value = 4
   \<and> length (filter (\<lambda>r. isna (decimal (raw_value r))) one_invalid_value) = 1
   \<and> length [monthly 2020 (201 / 2) 1, monthly 2020 (2003 / 10) 2, monthly 2020 150 4] = 4 - 1
   \<and> \<not> isna (value_mbblpd (monthly 2020 (2003 / 10) 2))
   \<and> year (monthly 2020 (2003 / 10) 2) = ts_year (date (monthly 2020 (2003 / 10) 2))
   \<and> month (monthly 2020 (2003 / 10) 2) = ts_month (date (monthly 2020 (2003 / 10) 2))"
proof -
  have n: "length one_invalid_value = 4"
    by (simp add: one_invalid_value_def)
  have k: "length (filter (\<lambda>r. isna (decimal (raw_value r))) one_invalid_value) = 1"
    by (simp add: one_invalid_value_def raw_production_def decimal_def digit_of_def)
  from normalization_drops_exactly_failed_coercions [OF clean_and_normalize_one_invalid_value]
  show ?thesis
    using clean_and_normalize_one_invalid_value n k by simp
qed

subsection \<open>Saving the annual table\<close>

lemma rint_of_int: "rint (of_int k) = k"
  by (simp add: rint_def)

lemma fround_idem: "fround n (fround n v) = fround n v"
  by (cases v) (simp_all add: rint_of_int)

lemma round_column_round_step:
  "k < length h \<Longrightarrow> round_column k col h = h[k := round_step col (h ! k)]"
  by (simp add: round_column_def round_step_def)

lemma fold_round_column:
  "k < length h \<Longrightarrow> fold (round_column k) cols h = h[k := fold round_step cols (h ! k)]"
proof (induction cols arbitrary: h)
  case Nil
  then show ?case by simp
next
  case (Cons col cols)
  have "fold (round_column k) (col # cols) h = fold (round_column k) cols (h[k := round_step col (h ! k)])"
    using Cons.prems by (simp add: round_column_round_step)
  also have "\<dots> = (h[k := round_step col (h ! k)])[k := fold round_step cols ((h[k := round_step col (h ! k)]) ! k)]"
    using Cons.prems by (intro Cons.IH) simp
  also have "\<dots> = h[k := fold round_step (col # cols) (h ! k)]"
    using Cons.prems by simp
  finally show ?case .
qed

lemma save_annual_data_heap:
  assumes "df < length h"
  shows "save_annual_data df output_path (h, fs) =
           (case output_path of None \<Rightarrow> GOLD_ANNUAL_PATH | Some p \<Rightarrow> p,
            h @ [rounded_copy (h ! df)],
            fs\<lparr>gold_store := (gold_store fs)
                  ((case output_path of None \<Rightarrow> GOLD_ANNUAL_PATH | Some p \<Rightarrow> p) \<mapsto> rounded_copy (h ! df))\<rparr>)"
proof -
  have "fold (round_column (length h)) (columns (h ! df)) (h @ [h ! df]) = h @ [rounded_copy (h ! df)]"
    by (simp add: fold_round_column rounded_copy_def)
  then show ?thesis
    using assms by (simp add: save_annual_data_def Let_def nth_append)
qed

lemma length_rows_round_step: "length (rows (round_step col g)) = length (rows g)"
  by (simp add: round_step_def length_rows_assign)

lemma cell_round_step:
  "i < length (rows g) \<Longrightarrow>
     cell (rows (round_step col g) ! i) c =
       (if c = col \<and> c \<noteq> ''year'' then fround 3 (cell (rows g ! i) c) else cell (rows g ! i) c)"
  by (simp add: round_step_def cell_assign)

lemma cell_fold_round_step:
  "i < length (rows g) \<Longrightarrow>
     cell (rows (fold round_step cols g) ! i) c =
       (if c \<in> set cols \<and> c \<noteq> ''year'' then fround 3 (cell (rows g ! i) c) else cell (rows g ! i) c)"
proof (induction cols arbitrary: g)
  case Nil
  then show ?case by simp
next
  case (Cons col cols)
  have i: "i < length (rows (round_step col g))"
    using Cons.prems by (simp add: length_rows_round_step)
  show ?case
    using Cons.IH [OF i] Cons.prems by (auto simp: cell_round_step fround_idem)
qed

lemma columns_fold_round_step:
  "set cols \<subseteq> set (columns g) \<Longrightarrow> columns (fold round_step cols g) = columns g"
  by (induction cols arbitrary: g) (simp_all add: round_step_def columns_assign)

lemma wyear_fold_round_step: "map wyear (rows (fold round_step cols g)) = map wyear (rows g)"
  by (induction cols arbitrary: g) (simp_all add: round_step_def assign_def comp_def)

lemma GoldAggregation_run_heap:
  assumes "silver_store fs self = Some clean_df"
      and "pivot_to_wide_format (calculate_annual_averages clean_df) = Inr wide"
  shows "GoldAggregation_run self (h, fs) =
           (Inr (length h),
            h @ [add_balance_check wide, rounded_copy (add_balance_check wide)],
            fs\<lparr>gold_store := (gold_store fs)(GOLD_ANNUAL_PATH \<mapsto> rounded_copy (add_balance_check wide))\<rparr>)"
proof -
  have "save_annual_data (length h) None (h @ [add_balance_check wide], fs) =
          (GOLD_ANNUAL_PATH, (h @ [add_balance_check wide]) @ [rounded_copy (add_balance_check wide)],
           fs\<lparr>gold_store := (gold_store fs)(GOLD_ANNUAL_PATH \<mapsto> rounded_copy (add_balance_check wide))\<rparr>)"
    by (subst save_annual_data_heap) simp_all
  then show ?thesis
    using assms by (simp add: GoldAggregation_run_def load_clean_data_def Let_def)
qed

lemma calculate_annual_averages_three_months:
  "calculate_annual_averages three_months =
     [\<lparr>year = 2020, component = ''Production'', annual_avg_mbblpd = Fin (301 / 3)\<rparr>]"
  by (simp add: calculate_annual_averages_def group_keys_def group_values_def three_months_def
      monthly_def nanmean_def)

lemma pivot_to_wide_format_three_months:
  "pivot_to_wide_format (calculate_annual_averages three_months) =
     Inr \<lparr>columns = [''year'', ''Production''],
          rows = [\<lparr>wyear = 2020, cells = [(''Production'', Fin (301 / 3))]\<rparr>]\<rparr>"
  by (simp add: calculate_annual_averages_three_months pivot_to_wide_format_def pivot_def
      select_year_and_def SERIES_MAPPING_def SUPPLY_COMPONENTS_def DISPOSITION_COMPONENTS_def
      cell_def Let_def)

lemma add_balance_check_three_months:
  "add_balance_check \<lparr>columns = [''year'', ''Production''],
                      rows = [\<lparr>wyear = 2020, cells = [(''Production'', Fin (301 / 3))]\<rparr>]\<rparr>
     = production_2020 (301 / 3)"
  by (simp add: add_balance_check_def production_2020_def assign_def cell_def nansum_def
      SUPPLY_COMPONENTS_def DISPOSITION_COMPONENTS_def Let_def)

lemma rounded_copy_production_2020:
  "rounded_copy (production_2020 (301 / 3)) = production_2020 (100333 / 1000)"
  by (simp add: rounded_copy_def round_step_def production_2020_def assign_def cell_def rint_def Let_def)

text \<open>
  C10. \<open>save_annual_data\<close> does not modify the table it is given: it allocates one new
  table, the copy with every column but \<^verbatim>\<open>year\<close> rounded to 3 decimals, writes that copy to
  the output path, and leaves every table of the heap, the one passed in included, as it
  was. Hence the table that the aggregation run returns is the unrounded result of
  \<open>add_balance_check\<close>, and the gold file holds its rounded copy. The copy has the columns
  and the years of the original, and each of its cells in a column other than \<^verbatim>\<open>year\<close> is
  the original cell rounded to 3 decimals.
\<close>

theorem save_rounds_a_copy_only:
  "(df < length h \<longrightarrow>
      save_annual_data df output_path (h, fs) =
        (case output_path of None \<Rightarrow> GOLD_ANNUAL_PATH | Some p \<Rightarrow> p,
         h @ [rounded_copy (h ! df)],
         fs\<lparr>gold_store := (gold_store fs)
               ((case output_path of None \<Rightarrow> GOLD_ANNUAL_PATH | Some p \<Rightarrow> p)
                  \<mapsto> rounded_copy (h ! df))\<rparr>)
      \<and> (h @ [rounded_copy (h ! df)]) ! df = h ! df)
   \<and> (silver_store fs self = Some clean_df
        \<and> pivot_to_wide_format (calculate_annual_averages clean_df) = Inr wide \<longrightarrow>
      GoldAggregation_run self (h, fs) =
        (Inr (length h),
         h @ [add_balance_check wide, rounded_copy (add_balance_check wide)],
         fs\<lparr>gold_store := (gold_store fs)(GOLD_ANNUAL_PATH \<mapsto> rounded_copy (add_balance_check wide))\<rparr>)
      \<and> (h @ [add_balance_check wide, rounded_copy (add_balance_check wide)]) ! length h
          = add_balance_check wide)
   \<and> columns (rounded_copy f) = columns f
   \<and> map wyear (rows (rounded_copy f)) = map wyear (rows f)
   \<and> (i < length (rows f) \<longrightarrow>
        cell (rows (rounded_copy f) ! i) c =
          (if c \<in> set (columns f) \<and> c \<noteq> ''year'' then fround 3 (cell (rows f ! i) c)
           else cell (rows f ! i) c))"
proof -
  have a: "df < length h \<longrightarrow>
      save_annual_data df output_path (h, fs) =
        (case output_path of None \<Rightarrow> GOLD_ANNUAL_PATH | Some p \<Rightarrow> p,
         h @ [rounded_copy (h ! df)],
         fs\<lparr>gold_store := (gold_store fs)
               ((case output_path of None \<Rightarrow> GOLD_ANNUAL_PATH | Some p \<Rightarrow> p)
                  \<mapsto> rounded_copy (h ! df))\<rparr>)
      \<and> (h @ [rounded_copy (h ! df)]) ! df = h ! df"
    by (simp add: save_annual_data_heap nth_append)
  have b: "silver_store fs self = Some clean_df
        \<and> pivot_to_wide_format (calculate_annual_averages clean_df) = Inr wide \<longrightarrow>
      GoldAggregation_run self (h, fs) =
        (Inr (length h),
         h @ [add_balance_check wide, rounded_copy (add_balance_check wide)],
         fs\<lparr>gold_store := (gold_store fs)(GOLD_ANNUAL_PATH \<mapsto> rounded_copy (add_balance_check wide))\<rparr>)
      \<and> (h @ [add_balance_check wide, rounded_copy (add_balance_check wide)]) ! length h
          = add_balance_check wide"
    by (simp add: GoldAggregation_run_heap)
  have c: "columns (rounded_copy f) = columns f"
    by (simp add: rounded_copy_def columns_fold_round_step)
  have d: "map wyear (rows (rounded_copy f)) = map wyear (rows f)"
    by (simp add: rounded_copy_def wyear_fold_round_step)
  have e: "i < length (rows f) \<longrightarrow>
        cell (rows (rounded_copy f) ! i) c =
          (if c \<in> set (columns f) \<and> c \<noteq> ''year'' then fround 3 (cell (rows f ! i) c)
           else cell (rows f ! i) c)"
    by (simp add: rounded_copy_def cell_fold_round_step)
  from a b c d e show ?thesis by blast
qed


theorem save_rounds_a_copy_only_witness:
  "(0::nat) < length [production_2020 (301 / 3)]
   \<and> save_annual_data 0 None ([production_2020 (301 / 3)], fs_three_months) =
       (GOLD_ANNUAL_PATH, [production_2020 (301 / 3), production_2020 (100333 / 1000)],
        fs_three_months\<lparr>gold_store :=
           (gold_store fs_three_months)(GOLD_ANNUAL_PATH \<mapsto> production_2020 (100333 / 1000))\<rparr>)
   \<and> silver_store fs_three_months SILVER_CLEAN_PATH = Some three_months
   \<and> GoldAggregation_run SILVER_CLEAN_PATH ([], fs_three_months) =
       (Inr 0, [production_2020 (301 / 3), production_2020 (100333 / 1000)],
        fs_three_months\<lparr>gold_store :=
           (gold_store fs_three_months)(GOLD_ANNUAL_PATH \<mapsto> production_2020 (100333 / 1000))\<rparr>)
   \<and> (0::nat) < length (rows (production_2020 (301 / 3)))
   \<and> cell (rows (rounded_copy (production_2020 (301 / 3))) ! 0) ''Production''
       = fround 3 (cell (rows (production_2020 (301 / 3)) ! 0) ''Production'')"
proof -
  let ?wide = "\<lparr>columns = [''year'', ''Production''],
                rows = [\<lparr>wyear = 2020, cells = [(''Production'', Fin (301 / 3))]\<rparr>]\<rparr>"
  have a: "(0::nat) < length [production_2020 (301 / 3)]" by simp
  have b: "silver_store fs_three_months SILVER_CLEAN_PATH = Some three_months"
    by (simp add: fs_three_months_def)
  have c: "(0::nat) < length (rows (production_2020 (301 / 3)))"
    by (simp add: production_2020_def)
  have d: "''Production'' \<in> set (columns (production_2020 (301 / 3))) \<and> ''Production'' \<noteq> ''year''"
    by (simp add: production_2020_def)
  note t = save_rounds_a_copy_only
      [where df = 0 and h = "[production_2020 (301 / 3)]" and output_path = None
         and fs = fs_three_months and self = SILVER_CLEAN_PATH and clean_df = three_months
         and wide = ?wide and f = "production_2020 (301 / 3)" and i = 0 and c = "''Production''"]
  have s: "save_annual_data 0 None ([production_2020 (301 / 3)], fs_three_months) =
       (GOLD_ANNUAL_PATH, [production_2020 (301 / 3), production_2020 (100333 / 1000)],
        fs_three_months\<lparr>gold_store :=
           (gold_store fs_three_months)(GOLD_ANNUAL_PATH \<mapsto> production_2020 (100333 / 1000))\<rparr>)"
    using t a by (simp add: rounded_copy_production_2020)
  have "\<And>hh. GoldAggregation_run SILVER_CLEAN_PATH (hh, fs_three_months) =
       (Inr (length hh), hh @ [production_2020 (301 / 3), production_2020 (100333 / 1000)],
        fs_three_months\<lparr>gold_store :=
           (gold_store fs_three_months)(GOLD_ANNUAL_PATH \<mapsto> production_2020 (100333 / 1000))\<rparr>)"
    using save_rounds_a_copy_only
      [where fs = fs_three_months and self = SILVER_CLEAN_PATH and clean_df = three_months
         and wide = ?wide] b pivot_to_wide_format_three_months
    by (simp add: add_balance_check_three_months rounded_copy_production_2020)
  from this [of "[]"]
  have r: "GoldAggregation_run SILVER_CLEAN_PATH ([], fs_three_months) =
       (Inr 0, [production_2020 (301 / 3), production_2020 (100333 / 1000)],
        fs_three_months\<lparr>gold_store :=
           (gold_store fs_three_months)(GOLD_ANNUAL_PATH \<mapsto> production_2020 (100333 / 1000))\<rparr>)"
    by simp
  have e: "cell (rows (rounded_copy (production_2020 (301 / 3))) ! 0) ''Production''
       = fround 3 (cell (rows (production_2020 (301 / 3)) ! 0) ''Production'')"
    using t c d by simp
  from a s b r c e show ?thesis by blast
qed

end
